theory Spec2Isabelle
  imports Main
begin

section \<open>JavaScript values, errors and promises\<close>

text \<open>
  The values the code tests for truthiness and with \<open>typeof\<close>. A number stands for any
  JSON number (only \<open>0\<close> is falsy); an object is its list of properties, in key order,
  each key once.
\<close>

datatype jsval =
    JUndefined
  | JNull
  | JBool bool
  | JNum int
  | JStr string
  | JObj "(string \<times> jsval) list"

fun truthy :: "jsval \<Rightarrow> bool" where
  "truthy JUndefined = False"
| "truthy JNull = False"
| "truthy (JBool b) = b"
| "truthy (JNum n) = (n \<noteq> 0)"
| "truthy (JStr s) = (s \<noteq> [])"
| "truthy (JObj kvs) = True"

fun typeof :: "jsval \<Rightarrow> string" where
  "typeof JUndefined = ''undefined''"
| "typeof JNull = ''object''"
| "typeof (JBool b) = ''boolean''"
| "typeof (JNum n) = ''number''"
| "typeof (JStr s) = ''string''"
| "typeof (JObj kvs) = ''object''"

text \<open>\<open>obj.key\<close>: a property that is not there reads as \<open>undefined\<close>.\<close>

fun property :: "jsval \<Rightarrow> string \<Rightarrow> jsval" where
  "property (JObj kvs) key = (case map_of kvs key of Some v \<Rightarrow> v | None \<Rightarrow> JUndefined)"
| "property v key = JUndefined"

text \<open>An optional string argument (\<open>x?: string\<close>): \<open>!x\<close> holds for \<open>undefined\<close> and for \<open>""\<close>.\<close>

fun falsy :: "string option \<Rightarrow> bool" where
  "falsy None = True"
| "falsy (Some s) = (s = [])"

text \<open>An \<open>Error\<close> or a \<open>TypeError\<close> object, by its message.\<close>

datatype jserror = Error (message: string) | TypeError (message: string)

text \<open>
  \<open>x.valueOf()\<close>, for the expression \<open>x\<close> of the given name. A primitive yields itself
  and an object inherits a \<open>valueOf\<close> that yields the object, unless it has a property
  of its own by that name: the values of this model hold no function, so the call throws
  the engine's \<open>TypeError\<close>. So does reading the property of \<open>undefined\<close> or \<open>null\<close>.
\<close>

fun valueOf :: "string \<Rightarrow> jsval \<Rightarrow> jserror + jsval" where
  "valueOf name (JObj kvs) =
     (case map_of kvs ''valueOf'' of
        Some v \<Rightarrow> Inl (TypeError (name @ ''.valueOf is not a function''))
      | None \<Rightarrow> Inr (JObj kvs))"
| "valueOf name JUndefined = Inl (TypeError ''Cannot read properties of undefined'')"
| "valueOf name JNull = Inl (TypeError ''Cannot read properties of null'')"
| "valueOf name v = Inr v"

text \<open>\<open>String.prototype.startsWith\<close>.\<close>

fun startsWith :: "string \<Rightarrow> string \<Rightarrow> bool" where
  "startsWith s [] = True"
| "startsWith [] (p # ps) = False"
| "startsWith (c # cs) (p # ps) = (c = p \<and> startsWith cs ps)"

text \<open>
  What the tests and the callers observe of an asynchronous computation: how its promise
  settles (or that it never does), the calls it made on its collaborators, in order, and
  the rejections of promises that nothing observes.
\<close>

datatype 'a settled = Resolved 'a | Rejected jserror | Pending

datatype tokenCacheEntry = CacheEntry (entry_clientId: string) (entry_accessToken: string)

datatype cacheQuery = ClientIdQuery string

datatype call =
    SuperGetTokenFromCache
  | TokenCacheFind cacheQuery
  | TokenCacheRemove "tokenCacheEntry list"
  | AcquireTokenWithClientCredentials string string string
  | GetSubscriptionsFromTenants "string list"
  | NewAuthenticationContext string bool
  | AcquireUserCode string string string
  | UserCodeResponseLogger string
  | ConsoleLog string
  | AcquireTokenWithDeviceCode string string
  | BuildTenantList

datatype 'a promise =
  Promise (settled: "'a settled") (calls: "call list") (unhandled: "jserror list")

definition resolve :: "'a \<Rightarrow> 'a promise" where
  "resolve v = Promise (Resolved v) [] []"

definition reject :: "jserror \<Rightarrow> 'a promise" where
  "reject e = Promise (Rejected e) [] []"

text \<open>\<open>p.then(f)\<close>, for a handler that returns a promise.\<close>

definition then_p :: "'a promise \<Rightarrow> ('a \<Rightarrow> 'b promise) \<Rightarrow> 'b promise" where
  "then_p p f =
     (case settled p of
        Resolved v \<Rightarrow>
          (let q = f v in Promise (settled q) (calls p @ calls q) (unhandled p @ unhandled q))
      | Rejected e \<Rightarrow> Promise (Rejected e) (calls p) (unhandled p)
      | Pending \<Rightarrow> Promise Pending (calls p) (unhandled p))"

text \<open>\<open>p.catch(h)\<close>.\<close>

definition catch_p :: "'a promise \<Rightarrow> (jserror \<Rightarrow> 'a promise) \<Rightarrow> 'a promise" where
  "catch_p p h =
     (case settled p of
        Resolved v \<Rightarrow> p
      | Rejected e \<Rightarrow>
          (let q = h e in Promise (settled q) (calls p @ calls q) (unhandled p @ unhandled q))
      | Pending \<Rightarrow> p)"

text \<open>
  A handler body \<open>{ p; }\<close> that starts the chain \<open>p\<close> and does not return it, followed by
  what the handler does return: the calls of \<open>p\<close> are made, and if \<open>p\<close> rejects nobody
  sees it.
\<close>

definition not_returned :: "'b promise \<Rightarrow> 'a promise \<Rightarrow> 'a promise" where
  "not_returned p k =
     Promise (settled k) (calls p @ calls k)
       (unhandled p @ (case settled p of Rejected e \<Rightarrow> [e] | _ \<Rightarrow> []) @ unhandled k)"

section \<open>Credentials\<close>

text \<open>
  The constants of \<open>AuthConstants\<close> and \<open>TokenAudience\<close> (\<open>util/authConstants\<close>) that the
  code reads; their values are parameters of the model.
\<close>

record authConstants =
  SDK_INTERNAL_ERROR :: string
  AAD_COMMON_TENANT :: string
  DEFAULT_ADAL_CLIENT_ID :: string
  DEFAULT_LANGUAGE :: string
  TokenAudience_graph :: string

record environment =
  env_name :: string
  activeDirectoryEndpointUrl :: string
  activeDirectoryResourceId :: string
  validateAuthority :: bool

datatype tokenCache = MemoryCache | SuppliedCache nat

record tokenResponse =
  tokenType :: string
  expiresIn :: int
  accessToken :: string
  userId :: "string option"

text \<open>
  Modelled from the spec: the base class \<open>TokenCredentialsBase\<close> is not among the
  sources. Its fields are those of the spec's Credential (client identifier, tenant or
  domain, token-audience selector, environment descriptor, handle to a token cache), which
  are also the five arguments its subclasses pass to \<open>super(...)\<close>. The base
  constructor itself is a parameter \<open>super\<close> of the constructors below: given the five
  arguments it throws or yields the base object.
\<close>

record tokenCredentialsBase =
  clientId :: string
  domain :: string
  tokenAudience :: "string option"
  environment :: "environment option"
  tokenCache :: "tokenCache option"

type_synonym super_ctor =
  "string \<Rightarrow> string \<Rightarrow> string option \<Rightarrow> environment option \<Rightarrow> tokenCache option
     \<Rightarrow> jserror + tokenCredentialsBase"

record applicationTokenCredentials = tokenCredentialsBase +
  secret :: string

record deviceTokenCredentials = tokenCredentialsBase +
  username :: string

subsection \<open>ApplicationTokenCredentials\<close>

fun string_of :: "jsval \<Rightarrow> string" where
  "string_of (JStr s) = s"
| "string_of v = []"

definition ApplicationTokenCredentials_ctor ::
  "super_ctor \<Rightarrow> string \<Rightarrow> string \<Rightarrow> jsval \<Rightarrow> string option \<Rightarrow> environment option
     \<Rightarrow> tokenCache option \<Rightarrow> jserror + applicationTokenCredentials" where
  "ApplicationTokenCredentials_ctor super clientId' domain' secret' tokenAudience' environment' tokenCache' =
     (if \<not> truthy secret' then Inl (Error ''secret must be a non empty string.'')
      else
        (case valueOf ''secret'' secret' of
           Inl thrown \<Rightarrow> Inl thrown
         | Inr v \<Rightarrow>
             if typeof v \<noteq> ''string'' then Inl (Error ''secret must be a non empty string.'')
             else
               (case super clientId' domain' tokenAudience' environment' tokenCache' of
                  Inl e \<Rightarrow> Inl e
                | Inr b \<Rightarrow>
                    Inr \<lparr>clientId = clientId b, domain = domain b,
                         tokenAudience = tokenAudience b, environment = environment b,
                         tokenCache = tokenCache b, secret = string_of secret'\<rparr>)))"

text \<open>
  What the wrapped library and the token cache answer during one \<open>getToken()\<close>: how the
  promise of \<open>super.getTokenFromCache(undefined)\<close> settles, what
  \<open>getActiveDirectoryResourceId()\<close> returns, and the arguments with which each callback
  is invoked, if it is. A cache's \<open>remove\<close> either runs its callback before it returns
  or returns first.
\<close>

datatype find_reply =
    FindCallback "jserror option" "tokenCacheEntry list option"
  | FindNoCallback

datatype remove_reply =
    RemoveCallback "jserror option"
  | RemoveReturnsFirst

datatype acquire_reply =
    AcquireCallback "jserror option" "tokenResponse option"
  | AcquireNoCallback

record adal =
  superGetTokenFromCache :: "tokenResponse settled"
  getActiveDirectoryResourceId :: string
  tokenCache_find :: "cacheQuery \<Rightarrow> find_reply"
  tokenCache_remove :: "tokenCacheEntry list \<Rightarrow> remove_reply"
  acquireTokenWithClientCredentials :: "string \<Rightarrow> string \<Rightarrow> string \<Rightarrow> acquire_reply"

definition removeInvalidItemsFromCache :: "adal \<Rightarrow> cacheQuery \<Rightarrow> jsval promise" where
  "removeInvalidItemsFromCache w query =
     (case tokenCache_find w query of
        FindNoCallback \<Rightarrow> Promise Pending [TokenCacheFind query] []
      | FindCallback error entries \<Rightarrow>
          (case error of
             Some e \<Rightarrow> Promise (Rejected e) [TokenCacheFind query] []
           | None \<Rightarrow>
               (case entries of
                  None \<Rightarrow> Promise (Resolved (JBool True)) [TokenCacheFind query] []
                | Some es \<Rightarrow>
                    if length es > 0 then
                      (case tokenCache_remove w es of
                         RemoveCallback err \<Rightarrow>
                           Promise (Resolved (JBool True))
                             [TokenCacheFind query, TokenCacheRemove es] []
                       | RemoveReturnsFirst \<Rightarrow>
                           Promise (Resolved JUndefined)
                             [TokenCacheFind query, TokenCacheRemove es] [])
                    else Promise (Resolved (JBool True)) [TokenCacheFind query] [])))"

definition critical_failure :: "authConstants \<Rightarrow> jserror \<Rightarrow> jserror" where
  "critical_failure K reason =
     Error (SDK_INTERNAL_ERROR K @ '' : ''
       @ ''critical failure while removing expired token for service principal from token cache. ''
       @ message reason)"

text \<open>
  The override of \<open>getTokenFromCache\<close>. A token response or \<open>undefined\<close> is a
  \<open>tokenResponse option\<close>: the \<open>catch\<close> handler has a block body with no \<open>return\<close>, so
  its value is \<open>undefined\<close>.
\<close>

definition getTokenFromCache ::
  "authConstants \<Rightarrow> adal \<Rightarrow> applicationTokenCredentials \<Rightarrow> tokenResponse option promise" where
  "getTokenFromCache K w self =
     catch_p
       (then_p (Promise (superGetTokenFromCache w) [SuperGetTokenFromCache] [])
          (\<lambda>tokenResponse. resolve (Some tokenResponse)))
       (\<lambda>error.
          not_returned
            (catch_p
               (then_p (removeInvalidItemsFromCache w (ClientIdQuery (clientId self)))
                  (\<lambda>_. (reject error :: jsval promise)))
               (\<lambda>reason. reject (critical_failure K reason)))
            (resolve None))"

text \<open>
  \<open>getToken\<close>, as a function of the promise that \<open>this.getTokenFromCache()\<close> returns
  (the method is protected and dispatched on \<open>this\<close>).
\<close>

definition getToken ::
  "tokenResponse option promise \<Rightarrow> authConstants \<Rightarrow> adal \<Rightarrow> applicationTokenCredentials
     \<Rightarrow> tokenResponse option promise" where
  "getToken this_getTokenFromCache K w self =
     catch_p
       (then_p this_getTokenFromCache (\<lambda>tokenResponse. resolve tokenResponse))
       (\<lambda>error.
          if startsWith (message error) (SDK_INTERNAL_ERROR K) then reject error
          else
            (let resource = getActiveDirectoryResourceId w;
                 invoked = [AcquireTokenWithClientCredentials resource (clientId self) (secret self)]
             in case acquireTokenWithClientCredentials w resource (clientId self) (secret self) of
                  AcquireNoCallback \<Rightarrow> Promise Pending invoked []
                | AcquireCallback error tokenResponse \<Rightarrow>
                    (case error of
                       Some e \<Rightarrow> Promise (Rejected e) invoked []
                     | None \<Rightarrow> Promise (Resolved tokenResponse) invoked [])))"

text \<open>\<open>getToken()\<close> on an \<open>ApplicationTokenCredentials\<close> object: with the class's own lookup.\<close>

definition ApplicationTokenCredentials_getToken ::
  "authConstants \<Rightarrow> adal \<Rightarrow> applicationTokenCredentials \<Rightarrow> tokenResponse option promise" where
  "ApplicationTokenCredentials_getToken K w self = getToken (getTokenFromCache K w self) K w self"

text \<open>The number of live acquisitions among the calls made.\<close>

fun is_acquisition :: "call \<Rightarrow> bool" where
  "is_acquisition (AcquireTokenWithClientCredentials r c s) = True"
| "is_acquisition other = False"

definition acquisitions :: "'a promise \<Rightarrow> nat" where
  "acquisitions p = length (filter is_acquisition (calls p))"

subsection \<open>DeviceTokenCredentials\<close>

fun string_arg :: "string option \<Rightarrow> string" where
  "string_arg (Some s) = s"
| "string_arg None = []"

definition DeviceTokenCredentials_ctor ::
  "authConstants \<Rightarrow> super_ctor \<Rightarrow> string option \<Rightarrow> string option \<Rightarrow> string option
     \<Rightarrow> string option \<Rightarrow> environment option \<Rightarrow> tokenCache option
     \<Rightarrow> jserror + deviceTokenCredentials" where
  "DeviceTokenCredentials_ctor K super clientId' domain' username' tokenAudience' environment' tokenCache' =
     (let username1 = (if falsy username' then Some ''user@example.com'' else username');
          domain1 = (if falsy domain' then Some (AAD_COMMON_TENANT K) else domain');
          clientId1 = (if falsy clientId' then Some (DEFAULT_ADAL_CLIENT_ID K) else clientId')
      in case super (string_arg clientId1) (string_arg domain1) tokenAudience' environment' tokenCache' of
           Inl e \<Rightarrow> Inl e
         | Inr b \<Rightarrow>
             Inr \<lparr>clientId = clientId b, domain = domain b, tokenAudience = tokenAudience b,
                  environment = environment b, tokenCache = tokenCache b,
                  username = string_arg username1\<rparr>)"

section \<open>Login flows\<close>

subsection \<open>Auth-file validation\<close>

definition is_missing :: "string \<Rightarrow> string \<Rightarrow> jserror" where
  "is_missing field filePath =
     Error (''\"'' @ field @ ''\" is missing from the auth file: '' @ filePath @ ''.'')"

definition validateAuthFileContent :: "jsval \<Rightarrow> string \<Rightarrow> jserror + unit" where
  "validateAuthFileContent credsObj filePath =
     (if \<not> truthy credsObj then Inl (Error ''Please provide a credsObj to validate.'')
      else if \<not> truthy (JStr filePath) then Inl (Error ''Please provide a filePath.'')
      else if \<not> truthy (property credsObj ''clientId'')
        then Inl (is_missing ''clientId'' filePath)
      else if \<not> truthy (property credsObj ''clientSecret'')
        then Inl (is_missing ''clientSecret'' filePath)
      else if \<not> truthy (property credsObj ''subscriptionId'')
        then Inl (is_missing ''subscriptionId'' filePath)
      else if \<not> truthy (property credsObj ''tenantId'')
        then Inl (is_missing ''tenantId'' filePath)
      else if \<not> truthy (property credsObj ''activeDirectoryEndpointUrl'')
        then Inl (is_missing ''activeDirectoryEndpointUrl'' filePath)
      else if \<not> truthy (property credsObj ''resourceManagerEndpointUrl'')
        then Inl (is_missing ''resourceManagerEndpointUrl'' filePath)
      else if \<not> truthy (property credsObj ''activeDirectoryGraphResourceId'')
        then Inl (is_missing ''activeDirectoryGraphResourceId'' filePath)
      else if \<not> truthy (property credsObj ''sqlManagementEndpointUrl'')
        then Inl (is_missing ''sqlManagementEndpointUrl'' filePath)
      else Inr ())"

subsection \<open>Matching a management endpoint\<close>

text \<open>
  Strings are sequences of code units below 256. On those \<open>toLowerCase\<close> moves
  \<open>A\<close>..\<open>Z\<close> and the capital letters of Latin-1 (192..222 but the sign 215) up by 32
  and leaves every other unit alone.
\<close>

definition toLowerCase_unit :: "char \<Rightarrow> char" where
  "toLowerCase_unit c =
     (let n = (of_char c :: nat)
      in if (65 \<le> n \<and> n \<le> 90) \<or> (192 \<le> n \<and> n \<le> 222 \<and> n \<noteq> 215)
         then char_of (n + 32) else c)"

definition toLowerCase :: "string \<Rightarrow> string" where
  "toLowerCase s = map toLowerCase_unit s"

definition endsWith :: "string \<Rightarrow> string \<Rightarrow> bool" where
  "endsWith s searchString =
     (length searchString \<le> length s
      \<and> drop (length s - length searchString) s = searchString)"

text \<open>\<open>s.slice(start, stop)\<close>: a negative index counts from the end.\<close>

definition slice :: "string \<Rightarrow> int \<Rightarrow> int \<Rightarrow> string" where
  "slice s start stop =
     (let len = int (length s);
          from = (if start < 0 then max (len + start) 0 else min start len);
          to = (if stop < 0 then max (len + stop) 0 else min stop len)
      in take (nat (to - from)) (drop (nat from) s))"

text \<open>
  The test \<open>!x || (x && typeof x.valueOf() !== 'string')\<close> of lines 233 and 237: its
  value, or what the call of \<open>valueOf\<close> throws.
\<close>

definition not_a_string :: "string \<Rightarrow> jsval \<Rightarrow> jserror + bool" where
  "not_a_string name x =
     (if \<not> truthy x then Inr True
      else
        (case valueOf name x of
           Inl thrown \<Rightarrow> Inl thrown
         | Inr v \<Rightarrow> Inr (truthy x \<and> typeof v \<noteq> ''string'')))"

definition foundManagementEndpointUrl :: "jsval \<Rightarrow> jsval \<Rightarrow> jserror + bool" where
  "foundManagementEndpointUrl authFileUrl envUrl =
     (case not_a_string ''authFileUrl'' authFileUrl of
        Inl thrown \<Rightarrow> Inl thrown
      | Inr True \<Rightarrow>
          Inl (Error ''authFileUrl cannot be null or undefined and must be of type string.'')
      | Inr False \<Rightarrow>
          (case not_a_string ''envUrl'' envUrl of
             Inl thrown \<Rightarrow> Inl thrown
           | Inr True \<Rightarrow>
               Inl (Error ''envUrl cannot be null or undefined and must be of type string.'')
           | Inr False \<Rightarrow>
               (let authFileUrl1 =
                      (if endsWith (string_of authFileUrl) ''/''
                       then slice (string_of authFileUrl) 0 (- 1) else string_of authFileUrl);
                    envUrl1 =
                      (if endsWith (string_of envUrl) ''/''
                       then slice (string_of envUrl) 0 (- 1) else string_of envUrl)
                in Inr (toLowerCase authFileUrl1 = toLowerCase envUrl1))))"

subsection \<open>Service principal with a secret\<close>

record optionalServicePrincipalParameters =
  opt_tokenAudience :: "string option"
  opt_environment :: "environment option"
  opt_tokenCache :: "tokenCache option"

record optionalUsernamePasswordParameters = optionalServicePrincipalParameters +
  opt_clientId :: "string option"
  opt_domain :: "string option"

text \<open>Of the logger the flow only uses that one was given.\<close>

record optionalInteractiveParameters = optionalUsernamePasswordParameters +
  opt_userCodeResponseLogger :: bool
  opt_language :: "string option"

type_synonym subscriptionInfo = string

record 'c authResponse =
  credentials :: 'c
  subscriptions :: "subscriptionInfo list"

text \<open>
  \<open>getSubscriptionsFromTenants\<close> (\<open>subscriptionManagement/subscriptionUtils\<close>) is a
  parameter: how its promise settles for a credential and a list of tenants.
\<close>

definition withServicePrincipalSecretWithAuthResponse ::
  "authConstants \<Rightarrow> super_ctor \<Rightarrow> adal
     \<Rightarrow> (applicationTokenCredentials \<Rightarrow> string list \<Rightarrow> subscriptionInfo list settled)
     \<Rightarrow> string \<Rightarrow> jsval \<Rightarrow> string \<Rightarrow> optionalServicePrincipalParameters option
     \<Rightarrow> applicationTokenCredentials authResponse promise" where
  "withServicePrincipalSecretWithAuthResponse K super w getSubscriptionsFromTenants
       clientId' secret' domain' options =
     (let options1 =
            (case options of
               None \<Rightarrow> \<lparr>opt_tokenAudience = None, opt_environment = None, opt_tokenCache = None\<rparr>
             | Some given \<Rightarrow> given)
      in case ApplicationTokenCredentials_ctor super clientId' domain' secret'
                (opt_tokenAudience options1) (opt_environment options1) None of
           Inl err \<Rightarrow> reject err
         | Inr creds \<Rightarrow>
             then_p (ApplicationTokenCredentials_getToken K w creds)
               (\<lambda>result.
                  then_p
                    (if \<not> (\<not> falsy (opt_tokenAudience options1)
                             \<and> opt_tokenAudience options1 = Some (TokenAudience_graph K))
                     then Promise (getSubscriptionsFromTenants creds [domain'])
                            [GetSubscriptionsFromTenants [domain']] []
                     else resolve [])
                    (\<lambda>subscriptionList.
                       resolve \<lparr>credentials = creds, subscriptions = subscriptionList\<rparr>)))"

subsection \<open>Interactive login with a device code\<close>

record userCodeInfo =
  userCode :: string
  deviceCode :: string
  userCode_message :: string

datatype userCode_reply =
    UserCodeCallback "jserror option" userCodeInfo
  | UserCodeNoCallback

datatype deviceCode_reply =
    DeviceCodeCallback "jserror option" tokenResponse
  | DeviceCodeNoCallback

text \<open>
  The authentication context of the flow and the two helpers of
  \<open>subscriptionManagement/subscriptionUtils\<close>, by what they answer.
\<close>

record interactive_adal =
  acquireUserCode :: "string \<Rightarrow> string \<Rightarrow> string \<Rightarrow> userCode_reply"
  acquireTokenWithDeviceCode :: "string \<Rightarrow> string \<Rightarrow> userCodeInfo \<Rightarrow> deviceCode_reply"
  buildTenantList :: "deviceTokenCredentials \<Rightarrow> string list settled"
  getSubscriptionsFromTenants ::
    "deviceTokenCredentials \<Rightarrow> string list \<Rightarrow> subscriptionInfo list settled"

text \<open>
  The object \<open>interactiveOptions\<close>, with every property the function reads or writes; one
  that was never assigned is \<open>None\<close>.
\<close>

record interactiveOptions =
  io_tokenAudience :: "string option"
  io_environment :: environment
  io_domain :: "string option"
  io_clientId :: "string option"
  io_tokenCache :: "tokenCache option"
  io_language :: "string option"
  io_userCodeResponseLogger :: bool
  io_username :: "string option"
  io_userName :: "string option"
  io_authorizationScheme :: "string option"

definition getSubscriptions ::
  "authConstants \<Rightarrow> interactive_adal \<Rightarrow> interactiveOptions \<Rightarrow> deviceTokenCredentials
     \<Rightarrow> string list \<Rightarrow> subscriptionInfo list promise" where
  "getSubscriptions K w interactiveOptions creds tenants =
     (if \<not> (\<not> falsy (io_tokenAudience interactiveOptions)
              \<and> io_tokenAudience interactiveOptions = Some (TokenAudience_graph K))
      then Promise (getSubscriptionsFromTenants w creds tenants)
             [GetSubscriptionsFromTenants tenants] []
      else resolve [])"

text \<open>
  The options after the defaults of lines 367 to 391. \<open>AzureEnvironment.Azure\<close> belongs
  to another package and is a parameter.
\<close>

definition interactive_defaults ::
  "authConstants \<Rightarrow> environment \<Rightarrow> optionalInteractiveParameters option \<Rightarrow> interactiveOptions" where
  "interactive_defaults K AzureEnvironment_Azure options =
     (let given =
            (case options of
               None \<Rightarrow>
                 \<lparr>opt_tokenAudience = None, opt_environment = None, opt_tokenCache = None,
                  opt_clientId = None, opt_domain = None,
                  opt_userCodeResponseLogger = False, opt_language = None\<rparr>
             | Some opts \<Rightarrow> opts)
      in \<lparr>io_tokenAudience = opt_tokenAudience given,
          io_environment =
            (case opt_environment given of None \<Rightarrow> AzureEnvironment_Azure | Some e \<Rightarrow> e),
          io_domain =
            (if falsy (opt_domain given) then Some (AAD_COMMON_TENANT K) else opt_domain given),
          io_clientId =
            (if falsy (opt_clientId given) then Some (DEFAULT_ADAL_CLIENT_ID K)
             else opt_clientId given),
          io_tokenCache =
            (case opt_tokenCache given of None \<Rightarrow> Some MemoryCache | Some c \<Rightarrow> Some c),
          io_language =
            (if falsy (opt_language given) then Some (DEFAULT_LANGUAGE K)
             else opt_language given),
          io_userCodeResponseLogger = opt_userCodeResponseLogger given,
          io_username = None,
          io_userName = None,
          io_authorizationScheme = None\<rparr>)"

definition getUserCode :: "interactive_adal \<Rightarrow> interactiveOptions \<Rightarrow> userCodeInfo promise" where
  "getUserCode w interactiveOptions =
     (let resource = activeDirectoryResourceId (io_environment interactiveOptions);
          invoked =
            [AcquireUserCode resource (string_arg (io_clientId interactiveOptions))
               (string_arg (io_language interactiveOptions))]
      in case acquireUserCode w resource (string_arg (io_clientId interactiveOptions))
                (string_arg (io_language interactiveOptions)) of
           UserCodeNoCallback \<Rightarrow> Promise Pending invoked []
         | UserCodeCallback err userCodeRes \<Rightarrow>
             (case err of
                Some e \<Rightarrow> Promise (Rejected e) invoked []
              | None \<Rightarrow>
                  Promise (Resolved userCodeRes)
                    (invoked @
                       [if io_userCodeResponseLogger interactiveOptions
                        then UserCodeResponseLogger (userCode_message userCodeRes)
                        else ConsoleLog (userCode_message userCodeRes)])
                    []))"

text \<open>
  Lines 427 to 443: the promise of the credential. The callback writes
  \<open>interactiveOptions.username\<close> and the constructor is given
  \<open>interactiveOptions.userName\<close>.
\<close>

definition acquireDeviceTokenCredentials ::
  "authConstants \<Rightarrow> super_ctor \<Rightarrow> interactive_adal \<Rightarrow> interactiveOptions \<Rightarrow> userCodeInfo
     \<Rightarrow> deviceTokenCredentials promise" where
  "acquireDeviceTokenCredentials K super w interactiveOptions userCodeResponse =
     (let resource = activeDirectoryResourceId (io_environment interactiveOptions);
          invoked =
            [AcquireTokenWithDeviceCode resource (string_arg (io_clientId interactiveOptions))]
      in case acquireTokenWithDeviceCode w resource (string_arg (io_clientId interactiveOptions))
                userCodeResponse of
           DeviceCodeNoCallback \<Rightarrow> Promise Pending invoked []
         | DeviceCodeCallback error tokenResponse \<Rightarrow>
             (case error of
                Some e \<Rightarrow> Promise (Rejected e) invoked []
              | None \<Rightarrow>
                  (let interactiveOptions1 =
                         interactiveOptions
                           \<lparr>io_username := userId tokenResponse,
                            io_authorizationScheme := Some (tokenType tokenResponse)\<rparr>
                   in case DeviceTokenCredentials_ctor K super
                             (io_clientId interactiveOptions1) (io_domain interactiveOptions1)
                             (io_userName interactiveOptions1)
                             (io_tokenAudience interactiveOptions1)
                             (Some (io_environment interactiveOptions1))
                             (io_tokenCache interactiveOptions1) of
                        Inl err \<Rightarrow> Promise (Rejected err) invoked []
                      | Inr creds \<Rightarrow> Promise (Resolved creds) invoked [])))"

definition withInteractiveWithAuthResponse ::
  "authConstants \<Rightarrow> environment \<Rightarrow> super_ctor \<Rightarrow> interactive_adal
     \<Rightarrow> optionalInteractiveParameters option
     \<Rightarrow> deviceTokenCredentials authResponse promise" where
  "withInteractiveWithAuthResponse K AzureEnvironment_Azure super w options =
     (let interactiveOptions = interactive_defaults K AzureEnvironment_Azure options;
          authorityUrl =
            activeDirectoryEndpointUrl (io_environment interactiveOptions)
              @ string_arg (io_domain interactiveOptions);
          authContext =
            Promise (Resolved ())
              [NewAuthenticationContext authorityUrl
                 (validateAuthority (io_environment interactiveOptions))] []
      in then_p authContext (\<lambda>_.
         then_p (getUserCode w interactiveOptions) (\<lambda>userCodeResponse.
         then_p (acquireDeviceTokenCredentials K super w interactiveOptions userCodeResponse)
           (\<lambda>creds.
         then_p (Promise (buildTenantList w creds) [BuildTenantList] []) (\<lambda>tenants.
         then_p (getSubscriptions K w interactiveOptions creds tenants) (\<lambda>subscriptions.
         resolve \<lparr>credentials = creds, subscriptions = subscriptions\<rparr>))))))"

section \<open>The specification's words\<close>

text \<open>The seven required fields of an auth file, in the order in which they are checked.\<close>

definition required_fields :: "string list" where
  "required_fields =
     [''clientId'', ''clientSecret'', ''subscriptionId'', ''tenantId'',
      ''activeDirectoryEndpointUrl'', ''resourceManagerEndpointUrl'',
      ''activeDirectoryGraphResourceId'']"

text \<open>A URL after lowercasing and removing at most one trailing slash.\<close>

definition normalised_url :: "string \<Rightarrow> string" where
  "normalised_url s =
     (let lowered = toLowerCase s
      in if lowered \<noteq> [] \<and> last lowered = CHR ''/'' then butlast lowered else lowered)"

text \<open>An argument that is absent (undefined or empty) is replaced by a default.\<close>

fun substituted :: "string option \<Rightarrow> string \<Rightarrow> string" where
  "substituted None d = d"
| "substituted (Some s) d = (if s = [] then d else s)"

text \<open>
  Modelled from the spec: the constructor of \<open>TokenCredentialsBase\<close> is not among the
  sources. Its validation errors are the spec's first tier: fatal, synchronous, thrown
  before any I/O when a required constructor argument is missing; the required arguments
  are the client id and the domain. The doc comments of both subclasses add that with the
  audience \<open>graph\<close> the domain must not be the default \<open>common\<close> tenant. Otherwise the base
  object holds the five arguments. The wording of the messages follows that of the secret.
\<close>

definition TokenCredentialsBase_ctor :: "authConstants \<Rightarrow> super_ctor" where
  "TokenCredentialsBase_ctor K clientId' domain' tokenAudience' environment' tokenCache' =
     (if clientId' = [] then Inl (Error ''clientId must be a non empty string.'')
      else if domain' = [] then Inl (Error ''domain must be a non empty string.'')
      else if tokenAudience' = Some (TokenAudience_graph K) \<and> toLowerCase domain' = ''common''
        then Inl (Error ''with the tokenAudience graph the domain cannot be the common tenant.'')
      else
        Inr \<lparr>clientId = clientId', domain = domain', tokenAudience = tokenAudience',
             environment = environment', tokenCache = tokenCache'\<rparr>)"

section \<open>Example inputs\<close>

definition example_constants :: authConstants where
  "example_constants =
     \<lparr>SDK_INTERNAL_ERROR = ''SDK_INTERNAL_ERROR'', AAD_COMMON_TENANT = ''common'',
      DEFAULT_ADAL_CLIENT_ID = ''04b07795-8ddb-461a-bbee-02f9e1bf7b46'',
      DEFAULT_LANGUAGE = ''en-us'', TokenAudience_graph = ''graph''\<rparr>"

text \<open>A base constructor that accepts every argument and stores it.\<close>

definition storing_super :: super_ctor where
  "storing_super c d a e t =
     Inr \<lparr>clientId = c, domain = d, tokenAudience = a, environment = e, tokenCache = t\<rparr>"

definition example_credentials :: applicationTokenCredentials where
  "example_credentials =
     \<lparr>clientId = ''app-id'', domain = ''tenant'', tokenAudience = None, environment = None,
      tokenCache = None, secret = ''s3cret''\<rparr>"

definition live_token :: tokenResponse where
  "live_token =
     \<lparr>tokenType = ''Bearer'', expiresIn = 3600, accessToken = ''live'', userId = None\<rparr>"

definition cached_token :: tokenResponse where
  "cached_token =
     \<lparr>tokenType = ''Bearer'', expiresIn = 1200, accessToken = ''cached'', userId = None\<rparr>"

definition cache_miss :: jserror where
  "cache_miss = Error ''Entry not found in cache.''"

definition removal_failure :: jserror where
  "removal_failure = Error ''An entry in the remove list was not found.''"

text \<open>
  A cache with no entry for the client: the lookup misses, \<open>find\<close> answers with no
  entries, and a live acquisition would succeed.
\<close>

definition empty_cache :: adal where
  "empty_cache =
     \<lparr>superGetTokenFromCache = Rejected cache_miss,
      getActiveDirectoryResourceId = ''https://management.core.windows.net/'',
      tokenCache_find = (\<lambda>q. FindCallback None (Some [])),
      tokenCache_remove = (\<lambda>es. RemoveCallback None),
      acquireTokenWithClientCredentials = (\<lambda>r c s. AcquireCallback None (Some live_token))\<rparr>"

text \<open>A cache with an expired entry whose removal fails.\<close>

definition stale_cache :: adal where
  "stale_cache =
     empty_cache
       \<lparr>tokenCache_find := (\<lambda>q. FindCallback None (Some [CacheEntry ''app-id'' ''stale''])),
        tokenCache_remove := (\<lambda>es. RemoveCallback (Some removal_failure))\<rparr>"

definition warm_cache :: adal where
  "warm_cache = empty_cache \<lparr>superGetTokenFromCache := Resolved cached_token\<rparr>"



text \<open>An auth file with every field but \<open>tenantId\<close>.\<close>

definition example_auth_file :: jsval where
  "example_auth_file =
     JObj
       [(''clientId'', JStr ''app-id''),
        (''clientSecret'', JStr ''s3cret''),
        (''subscriptionId'', JStr ''sub-1''),
        (''activeDirectoryEndpointUrl'', JStr ''https://login.microsoftonline.com''),
        (''resourceManagerEndpointUrl'', JStr ''https://management.azure.com/''),
        (''activeDirectoryGraphResourceId'', JStr ''https://graph.windows.net/''),
        (''sqlManagementEndpointUrl'', JStr ''https://management.core.windows.net:8443/'')]"

definition azure_public :: environment where
  "azure_public =
     \<lparr>env_name = ''Azure'', activeDirectoryEndpointUrl = ''https://login.microsoftonline.com/'',
      activeDirectoryResourceId = ''https://management.core.windows.net/'',
      validateAuthority = True\<rparr>"

definition alice_token :: tokenResponse where
  "alice_token =
     \<lparr>tokenType = ''Bearer'', expiresIn = 3600, accessToken = ''device'',
      userId = Some ''alice@contoso.com''\<rparr>"

text \<open>A device login that succeeds for the user of \<open>alice_token\<close>.\<close>

definition device_login :: interactive_adal where
  "device_login =
     \<lparr>acquireUserCode =
        (\<lambda>r c l. UserCodeCallback None
           \<lparr>userCode = ''ABCD'', deviceCode = ''dev'', userCode_message = ''enter ABCD''\<rparr>),
      acquireTokenWithDeviceCode = (\<lambda>r c u. DeviceCodeCallback None alice_token),
      buildTenantList = (\<lambda>creds. Resolved [''tenant'']),
      getSubscriptionsFromTenants = (\<lambda>creds tenants. Resolved [''sub-1''])\<rparr>"

section \<open>Token retrieval of ApplicationTokenCredentials\<close>

lemma getToken_of_rejected:
  "settled lookup = Rejected error \<Longrightarrow> startsWith (message error) (SDK_INTERNAL_ERROR K) \<Longrightarrow>
   getToken lookup K w self = Promise (Rejected error) (calls lookup) (unhandled lookup)"
  by (simp add: getToken_def catch_p_def then_p_def reject_def Let_def)

text \<open>
  The test of \<open>getToken\<close> does propagate a critical error with which the promise of
  \<open>this.getTokenFromCache()\<close> rejects, and makes no call then.
\<close>

lemma getToken_propagates_rejection:
  assumes "settled lookup = Rejected error"
    and "startsWith (message error) (SDK_INTERNAL_ERROR K)"
  shows "settled (getToken lookup K w self) = Rejected error
     \<and> calls (getToken lookup K w self) = calls lookup"
  using assms by (simp add: getToken_of_rejected)

text \<open>
  The override of \<open>getTokenFromCache\<close> never rejects: when the base lookup rejects, the
  handler starts the repair, returns nothing, and the promise resolves with \<open>undefined\<close>.
  So \<open>getToken()\<close> of the class settles as the base lookup does, with \<open>undefined\<close> for a
  miss, and never reaches the live acquisition.
\<close>

lemma getTokenFromCache_settled:
  "settled (getTokenFromCache K w self) =
     (case superGetTokenFromCache w of
        Resolved t \<Rightarrow> Resolved (Some t) | Rejected e \<Rightarrow> Resolved None | Pending \<Rightarrow> Pending)"
  by (simp add: getTokenFromCache_def catch_p_def then_p_def not_returned_def resolve_def Let_def
      split: settled.splits)

lemma removeInvalidItemsFromCache_acquisitions:
  "filter is_acquisition (calls (removeInvalidItemsFromCache w q)) = []"
  by (simp add: removeInvalidItemsFromCache_def
      split: find_reply.splits option.splits remove_reply.splits)

lemma getTokenFromCache_acquisitions: "acquisitions (getTokenFromCache K w self) = 0"
  by (simp add: getTokenFromCache_def acquisitions_def catch_p_def then_p_def not_returned_def
      resolve_def reject_def Let_def removeInvalidItemsFromCache_acquisitions split: settled.splits)

lemma ApplicationTokenCredentials_getToken_acquisitions:
  "acquisitions (ApplicationTokenCredentials_getToken K w self) = 0"
  using getTokenFromCache_acquisitions [of K w self] getTokenFromCache_settled [of K w self]
  by (auto simp add: ApplicationTokenCredentials_getToken_def getToken_def acquisitions_def
      catch_p_def then_p_def resolve_def Let_def split: settled.splits)

lemma ApplicationTokenCredentials_getToken_settled:
  "settled (ApplicationTokenCredentials_getToken K w self) =
     (case superGetTokenFromCache w of
        Resolved t \<Rightarrow> Resolved (Some t) | Rejected e \<Rightarrow> Resolved None | Pending \<Rightarrow> Pending)"
  using getTokenFromCache_settled [of K w self]
  by (auto simp add: ApplicationTokenCredentials_getToken_def getToken_def
      catch_p_def then_p_def resolve_def Let_def split: settled.splits)


text \<open>
  C2, as the code runs it. With an empty cache and a delegate that would succeed with
  \<open>live_token\<close>, \<open>getToken()\<close> resolves with \<open>undefined\<close> after the lookup and the
  cache's \<open>find\<close>; the delegate is not invoked, where the claim has it invoked once and
  its token returned. The rejection with the critical error is left unobserved.
\<close>

theorem getToken_empty_cache_resolves_undefined:
  "ApplicationTokenCredentials_getToken example_constants empty_cache example_credentials =
     Promise (Resolved None)
       [SuperGetTokenFromCache, TokenCacheFind (ClientIdQuery ''app-id'')]
       [critical_failure example_constants cache_miss]
   \<and> acquisitions
       (ApplicationTokenCredentials_getToken example_constants empty_cache example_credentials) = 0"
  by (simp add: ApplicationTokenCredentials_getToken_def getToken_def getTokenFromCache_def
      removeInvalidItemsFromCache_def catch_p_def then_p_def not_returned_def resolve_def
      reject_def Let_def empty_cache_def example_credentials_def acquisitions_def)

text \<open>
  C3, as the code runs it. After an ordinary miss with no matching entry the repair
  resolves without removing anything, as claimed; but \<open>getTokenFromCache\<close> resolves with
  \<open>undefined\<close> where the claim has it reject with the miss, and \<open>getToken()\<close> ends after
  the lookup and the \<open>find\<close>, with no live acquisition.
\<close>

theorem getTokenFromCache_miss_resolves_undefined:
  "removeInvalidItemsFromCache empty_cache (ClientIdQuery (clientId example_credentials)) =
     Promise (Resolved (JBool True)) [TokenCacheFind (ClientIdQuery ''app-id'')] []
   \<and> settled (getTokenFromCache example_constants empty_cache example_credentials) = Resolved None
   \<and> settled (getTokenFromCache example_constants empty_cache example_credentials)
       \<noteq> Rejected cache_miss
   \<and> calls (ApplicationTokenCredentials_getToken example_constants empty_cache example_credentials) =
       [SuperGetTokenFromCache, TokenCacheFind (ClientIdQuery ''app-id'')]"
  by (simp add: ApplicationTokenCredentials_getToken_def getToken_def getTokenFromCache_def
      removeInvalidItemsFromCache_def catch_p_def then_p_def not_returned_def resolve_def
      reject_def Let_def empty_cache_def example_credentials_def)

text \<open>
  C4, as the code runs it. With a matching entry whose removal fails, \<open>getToken()\<close>
  resolves with \<open>undefined\<close> where the claim has it reject with a critical error. The
  callback given to \<open>remove\<close> ignores its error, so the one critical error built, which
  nobody observes, carries the message of the miss and not that of the removal.
\<close>

theorem getToken_failed_removal_resolves_undefined:
  "ApplicationTokenCredentials_getToken example_constants stale_cache example_credentials =
     Promise (Resolved None)
       [SuperGetTokenFromCache, TokenCacheFind (ClientIdQuery ''app-id''),
        TokenCacheRemove [CacheEntry ''app-id'' ''stale'']]
       [critical_failure example_constants cache_miss]"
  by (simp add: ApplicationTokenCredentials_getToken_def getToken_def getTokenFromCache_def
      removeInvalidItemsFromCache_def catch_p_def then_p_def not_returned_def resolve_def
      reject_def Let_def empty_cache_def stale_cache_def example_credentials_def)

lemma getTokenFromCache_hit:
  "superGetTokenFromCache w = Resolved t \<Longrightarrow>
   getTokenFromCache K w self = Promise (Resolved (Some t)) [SuperGetTokenFromCache] []"
  by (simp add: getTokenFromCache_def catch_p_def then_p_def resolve_def Let_def)

text \<open>
  C5. On a cache hit \<open>getToken()\<close> resolves with the cached token response, unchanged,
  and the only call made is the lookup: no live acquisition.
\<close>

theorem getToken_cache_hit:
  assumes "superGetTokenFromCache w = Resolved cached"
  shows "settled (ApplicationTokenCredentials_getToken K w self) = Resolved (Some cached)
     \<and> calls (ApplicationTokenCredentials_getToken K w self) = [SuperGetTokenFromCache]
     \<and> acquisitions (ApplicationTokenCredentials_getToken K w self) = 0"
  using assms
  by (simp add: ApplicationTokenCredentials_getToken_def getTokenFromCache_hit getToken_def
      catch_p_def then_p_def resolve_def Let_def acquisitions_def)

theorem getToken_cache_hit_witness:
  "settled (ApplicationTokenCredentials_getToken example_constants warm_cache example_credentials)
     = Resolved (Some cached_token)
   \<and> acquisitions
       (ApplicationTokenCredentials_getToken example_constants warm_cache example_credentials) = 0"
proof -
  have h: "superGetTokenFromCache warm_cache = Resolved cached_token"
    by (simp add: warm_cache_def)
  from getToken_cache_hit [OF h, of example_constants example_credentials]
  show ?thesis by simp
qed

section \<open>Constructors\<close>

text \<open>
  C8. An empty-string secret makes the constructor of \<open>ApplicationTokenCredentials\<close>
  throw \<open>secret must be a non empty string.\<close>, whatever the base constructor would do
  (it is not reached). In the service-principal flow the error is the result, and no
  call on the cache, the library or the subscription helper has been made.
\<close>

theorem empty_secret_rejected_before_any_call:
  "ApplicationTokenCredentials_ctor super clientId' domain' (JStr []) tokenAudience' environment'
       tokenCache'
     = Inl (Error ''secret must be a non empty string.'')
   \<and> withServicePrincipalSecretWithAuthResponse K super w getSubscriptionsFromTenants'
        clientId' (JStr []) domain' options
     = Promise (Rejected (Error ''secret must be a non empty string.'')) [] []"
  by (simp add: ApplicationTokenCredentials_ctor_def withServicePrincipalSecretWithAuthResponse_def
      reject_def Let_def)

theorem empty_secret_rejected_before_any_call_witness:
  "withServicePrincipalSecretWithAuthResponse example_constants storing_super empty_cache
     (\<lambda>creds tenants. Resolved [''sub-1'']) ''app-id'' (JStr []) ''tenant'' None
   = Promise (Rejected (Error ''secret must be a non empty string.'')) [] []"
  using empty_secret_rejected_before_any_call
    [of storing_super "''app-id''" "''tenant''" None None None example_constants empty_cache
      "\<lambda>creds tenants. Resolved [''sub-1'']" None]
  by (rule conjunct2)

text \<open>
  The constructor of \<open>DeviceTokenCredentials\<close> has no throw of its own: it is the base
  constructor on the substituted client id and domain, with the substituted user name.
\<close>

lemma DeviceTokenCredentials_ctor_super:
  "DeviceTokenCredentials_ctor K super clientId' domain' username' tokenAudience' environment'
       tokenCache' =
     (case super (substituted clientId' (DEFAULT_ADAL_CLIENT_ID K))
             (substituted domain' (AAD_COMMON_TENANT K)) tokenAudience' environment' tokenCache' of
        Inl e \<Rightarrow> Inl e
      | Inr b \<Rightarrow>
          Inr \<lparr>clientId = clientId b, domain = domain b, tokenAudience = tokenAudience b,
               environment = environment b, tokenCache = tokenCache b,
               username = substituted username' ''user@example.com''\<rparr>)"
proof -
  have sub: "\<And>x d. string_arg (if falsy x then Some d else x) = substituted x d"
    by (case_tac x) simp_all
  show ?thesis
    unfolding DeviceTokenCredentials_ctor_def Let_def sub ..
qed

text \<open>
  C10 fails as stated. With the audience \<open>graph\<close> and every other argument absent the
  constructor throws, and with the same arguments but a domain given it does not: the
  absent domain became \<open>common\<close>, which the base constructor refuses for \<open>graph\<close>.
\<close>

theorem DeviceTokenCredentials_ctor_graph_counterexample:
  "isl (DeviceTokenCredentials_ctor example_constants (TokenCredentialsBase_ctor example_constants)
          None None None (Some ''graph'') None None)
   \<and> \<not> isl (DeviceTokenCredentials_ctor example_constants
               (TokenCredentialsBase_ctor example_constants)
               None (Some ''contoso.onmicrosoft.com'') None (Some ''graph'') None None)"
  by (simp add: DeviceTokenCredentials_ctor_super TokenCredentialsBase_ctor_def
      example_constants_def) code_simp

text \<open>
  C10, amended. Let the two default constants be non-empty. For every combination of
  absent \<open>clientId\<close>, \<open>domain\<close> and \<open>username\<close>, unless the audience is \<open>graph\<close> and the
  domain after substitution is the common tenant, the constructor does not throw: it
  returns the credential that holds the default client id, the common tenant and
  \<open>user@example.com\<close> for the absent ones and the given values for the others. With the
  audience \<open>graph\<close>, an absent domain and \<open>common\<close> as the common tenant, it throws.
\<close>

theorem DeviceTokenCredentials_ctor_defaults:
  assumes "DEFAULT_ADAL_CLIENT_ID K \<noteq> []" and "AAD_COMMON_TENANT K \<noteq> []"
  shows
    "(\<not> (tokenAudience' = Some (TokenAudience_graph K)
          \<and> toLowerCase (substituted domain' (AAD_COMMON_TENANT K)) = ''common'') \<longrightarrow>
        DeviceTokenCredentials_ctor K (TokenCredentialsBase_ctor K) clientId' domain' username'
            tokenAudience' environment' tokenCache' =
          Inr \<lparr>clientId = substituted clientId' (DEFAULT_ADAL_CLIENT_ID K),
               domain = substituted domain' (AAD_COMMON_TENANT K),
               tokenAudience = tokenAudience', environment = environment',
               tokenCache = tokenCache',
               username = substituted username' ''user@example.com''\<rparr>)
     \<and> (falsy domain' \<and> tokenAudience' = Some (TokenAudience_graph K)
          \<and> toLowerCase (AAD_COMMON_TENANT K) = ''common'' \<longrightarrow>
        isl (DeviceTokenCredentials_ctor K (TokenCredentialsBase_ctor K) clientId' domain'
               username' tokenAudience' environment' tokenCache'))"
proof -
  have c: "substituted clientId' (DEFAULT_ADAL_CLIENT_ID K) \<noteq> []"
    using assms(1) by (cases clientId') simp_all
  have d: "substituted domain' (AAD_COMMON_TENANT K) \<noteq> []"
    using assms(2) by (cases domain') simp_all
  have a: "falsy domain' \<Longrightarrow> substituted domain' (AAD_COMMON_TENANT K) = AAD_COMMON_TENANT K"
    by (cases domain') simp_all
  show ?thesis
    using c d a
    by (auto simp add: DeviceTokenCredentials_ctor_super TokenCredentialsBase_ctor_def)
qed

theorem DeviceTokenCredentials_ctor_defaults_witness:
  "DeviceTokenCredentials_ctor example_constants (TokenCredentialsBase_ctor example_constants)
       None (Some []) None None None None =
     Inr \<lparr>clientId = ''04b07795-8ddb-461a-bbee-02f9e1bf7b46'', domain = ''common'',
          tokenAudience = None, environment = None, tokenCache = None,
          username = ''user@example.com''\<rparr>
   \<and> isl (DeviceTokenCredentials_ctor example_constants
            (TokenCredentialsBase_ctor example_constants)
            None (Some []) None (Some ''graph'') None None)"
proof -
  have 1: "DEFAULT_ADAL_CLIENT_ID example_constants \<noteq> []"
    by (simp add: example_constants_def)
  have 2: "AAD_COMMON_TENANT example_constants \<noteq> []"
    by (simp add: example_constants_def)
  have 3: "\<not> ((None :: string option) = Some (TokenAudience_graph example_constants)
      \<and> toLowerCase (substituted (Some []) (AAD_COMMON_TENANT example_constants)) = ''common'')"
    by simp
  have 4: "falsy (Some []) \<and> Some ''graph'' = Some (TokenAudience_graph example_constants)
      \<and> toLowerCase (AAD_COMMON_TENANT example_constants) = ''common''"
    by (simp add: example_constants_def) code_simp
  from DeviceTokenCredentials_ctor_defaults
         [OF 1 2, where tokenAudience' = None and domain' = "Some []" and clientId' = None
            and username' = None and environment' = None and tokenCache' = None,
          THEN conjunct1, THEN mp, OF 3]
       DeviceTokenCredentials_ctor_defaults
         [OF 1 2, where tokenAudience' = "Some ''graph''" and domain' = "Some []"
            and clientId' = None and username' = None and environment' = None
            and tokenCache' = None,
          THEN conjunct2, THEN mp, OF 4]
  show ?thesis
    by (simp add: example_constants_def)
qed

section \<open>The interactive flow\<close>

text \<open>
  The constructor is given \<open>interactiveOptions.userName\<close>, which is never assigned; the
  user of the token response is written to \<open>interactiveOptions.username\<close>. So every
  credential the flow resolves with has the placeholder as its user name.
\<close>

lemma DeviceTokenCredentials_ctor_placeholder:
  "DeviceTokenCredentials_ctor K super c d None a e t = Inr creds \<Longrightarrow>
   username creds = ''user@example.com''"
  by (auto simp add: DeviceTokenCredentials_ctor_def Let_def split: sum.splits)

lemma acquireDeviceTokenCredentials_username:
  "io_userName io = None \<Longrightarrow>
   settled (acquireDeviceTokenCredentials K super w io u) = Resolved creds \<Longrightarrow>
   username creds = ''user@example.com''"
  by (auto simp add: acquireDeviceTokenCredentials_def Let_def
      dest: DeviceTokenCredentials_ctor_placeholder
      split: deviceCode_reply.splits option.splits sum.splits)

lemma withInteractiveWithAuthResponse_username:
  assumes "settled (withInteractiveWithAuthResponse K az super w options) = Resolved r"
  shows "username (credentials r) = ''user@example.com''"
proof -
  have n: "io_userName (interactive_defaults K az options) = None"
    by (simp add: interactive_defaults_def Let_def)
  show ?thesis
    using assms acquireDeviceTokenCredentials_username [OF n, of K super w]
    by (auto simp add: withInteractiveWithAuthResponse_def then_p_def resolve_def Let_def
        split: settled.splits)
qed

text \<open>
  C9, as the code runs it. The device login succeeds with a token response whose
  \<open>userId\<close> is \<open>alice@contoso.com\<close>; the credential resolved to the caller has the user
  name \<open>user@example.com\<close>, where the claim has the \<open>userId\<close>.
\<close>

theorem withInteractiveWithAuthResponse_drops_userId:
  "settled (withInteractiveWithAuthResponse example_constants azure_public storing_super
       device_login None) =
     Resolved
       \<lparr>credentials =
          \<lparr>clientId = ''04b07795-8ddb-461a-bbee-02f9e1bf7b46'', domain = ''common'',
           tokenAudience = None, environment = Some azure_public, tokenCache = Some MemoryCache,
           username = ''user@example.com''\<rparr>,
        subscriptions = [''sub-1'']\<rparr>
   \<and> userId alice_token = Some ''alice@contoso.com''"
  by (simp add: withInteractiveWithAuthResponse_def interactive_defaults_def getUserCode_def
      acquireDeviceTokenCredentials_def DeviceTokenCredentials_ctor_def getSubscriptions_def
      then_p_def resolve_def Let_def device_login_def storing_super_def example_constants_def
      alice_token_def)

section \<open>The auth file\<close>

lemma first_missing_field:
  assumes "truthy credsObj" and "filePath \<noteq> []" and "f \<in> set required_fields"
    and "\<not> truthy (property credsObj f)"
    and "\<forall>g \<in> set (takeWhile (\<lambda>g. g \<noteq> f) required_fields). truthy (property credsObj g)"
  shows "validateAuthFileContent credsObj filePath =
     Inl (Error (''\"'' @ f @ ''\" is missing from the auth file: '' @ filePath @ ''.''))"
proof -
  from assms(3) have "f = ''clientId'' \<or> f = ''clientSecret'' \<or> f = ''subscriptionId''
    \<or> f = ''tenantId'' \<or> f = ''activeDirectoryEndpointUrl''
    \<or> f = ''resourceManagerEndpointUrl'' \<or> f = ''activeDirectoryGraphResourceId''"
    unfolding required_fields_def by simp
  then show ?thesis
    using assms(1,2,4,5)
    apply (elim disjE)
    apply (simp_all add: validateAuthFileContent_def is_missing_def required_fields_def)
    done
qed

text \<open>
  C6. Let \<open>f\<close> be one of the seven required fields, missing from a descriptor (absent or
  falsy) that is validated for a file path. If no other required field is missing, the
  error thrown is the one that names \<open>f\<close>. More generally validation fails fast: the
  same error is thrown as soon as the fields checked before \<open>f\<close> are there, whatever
  comes after. The message names no other field: it differs from the message for any
  other field.
\<close>

theorem validateAuthFileContent_names_missing_field:
  assumes "truthy credsObj" and "filePath \<noteq> []"
    and "f \<in> set required_fields" and "\<not> truthy (property credsObj f)"
  shows
    "((\<forall>g \<in> set required_fields. g \<noteq> f \<longrightarrow> truthy (property credsObj g)) \<longrightarrow>
        validateAuthFileContent credsObj filePath =
          Inl (Error (''\"'' @ f @ ''\" is missing from the auth file: '' @ filePath @ ''.'')))
     \<and> ((\<forall>g \<in> set (takeWhile (\<lambda>g. g \<noteq> f) required_fields). truthy (property credsObj g)) \<longrightarrow>
        validateAuthFileContent credsObj filePath =
          Inl (Error (''\"'' @ f @ ''\" is missing from the auth file: '' @ filePath @ ''.'')))
     \<and> (\<forall>g. g \<noteq> f \<longrightarrow>
        Error (''\"'' @ f @ ''\" is missing from the auth file: '' @ filePath @ ''.'')
          \<noteq> is_missing g filePath)"
proof (intro conjI impI allI)
  assume only: "\<forall>g \<in> set required_fields. g \<noteq> f \<longrightarrow> truthy (property credsObj g)"
  have "\<forall>g \<in> set (takeWhile (\<lambda>g. g \<noteq> f) required_fields). truthy (property credsObj g)"
  proof
    fix g assume g: "g \<in> set (takeWhile (\<lambda>g. g \<noteq> f) required_fields)"
    then have "g \<in> set required_fields" and "g \<noteq> f"
      by (auto dest: set_takeWhileD)
    with only show "truthy (property credsObj g)" by blast
  qed
  with assms show "validateAuthFileContent credsObj filePath =
      Inl (Error (''\"'' @ f @ ''\" is missing from the auth file: '' @ filePath @ ''.''))"
    by (rule first_missing_field)
next
  assume "\<forall>g \<in> set (takeWhile (\<lambda>g. g \<noteq> f) required_fields). truthy (property credsObj g)"
  with assms show "validateAuthFileContent credsObj filePath =
      Inl (Error (''\"'' @ f @ ''\" is missing from the auth file: '' @ filePath @ ''.''))"
    by (rule first_missing_field)
next
  fix g :: string assume "g \<noteq> f"
  then show "Error (''\"'' @ f @ ''\" is missing from the auth file: '' @ filePath @ ''.'')
          \<noteq> is_missing g filePath"
    by (simp add: is_missing_def)
qed

theorem validateAuthFileContent_names_missing_field_witness:
  "validateAuthFileContent example_auth_file ''auth.json'' =
     Inl (Error ''\"tenantId\" is missing from the auth file: auth.json.'')"
proof -
  have 1: "truthy example_auth_file" by (simp add: example_auth_file_def)
  have 2: "''auth.json'' \<noteq> []" by simp
  have 3: "''tenantId'' \<in> set required_fields" by (simp add: required_fields_def)
  have 4: "\<not> truthy (property example_auth_file ''tenantId'')"
    by (simp add: example_auth_file_def)
  have 5: "\<forall>g \<in> set required_fields. g \<noteq> ''tenantId'' \<longrightarrow> truthy (property example_auth_file g)"
    by (simp add: required_fields_def example_auth_file_def)
  from validateAuthFileContent_names_missing_field [OF 1 2 3 4, THEN conjunct1, THEN mp, OF 5]
  show ?thesis by simp
qed

lemma endsWith_slash: "endsWith s ''/'' \<longleftrightarrow> s \<noteq> [] \<and> last s = CHR ''/''"
proof (cases s rule: rev_cases)
  case Nil
  then show ?thesis by (simp add: endsWith_def)
next
  case (snoc ys y)
  then show ?thesis by (auto simp add: endsWith_def)
qed

lemma slice_butlast: "slice s 0 (- 1) = butlast s"
  by (cases s rule: rev_cases) (simp_all add: slice_def Let_def)

lemma toLowerCase_unit_slash: "toLowerCase_unit c = CHR ''/'' \<longleftrightarrow> c = CHR ''/''"
proof
  assume h: "toLowerCase_unit c = CHR ''/''"
  show "c = CHR ''/''"
  proof (rule ccontr)
    assume n: "c \<noteq> CHR ''/''"
    then have r: "(65 \<le> (of_char c :: nat) \<and> (of_char c :: nat) \<le> 90)
        \<or> (192 \<le> (of_char c :: nat) \<and> (of_char c :: nat) \<le> 222 \<and> (of_char c :: nat) \<noteq> 215)"
      using h by (auto simp add: toLowerCase_unit_def Let_def split: if_splits)
    then have "toLowerCase_unit c = char_of ((of_char c :: nat) + 32)"
      by (simp add: toLowerCase_unit_def Let_def)
    then have "(of_char (CHR ''/'') :: nat) = ((of_char c :: nat) + 32) mod 256"
      using h by (metis of_char_of)
    then show False using r by auto
  qed
next
  assume "c = CHR ''/''"
  then show "toLowerCase_unit c = CHR ''/''"
    by (simp add: toLowerCase_unit_def)
qed

lemma stripped_then_lowered:
  "endsWith s ''/'' \<Longrightarrow> toLowerCase (slice s 0 (- 1)) = normalised_url s"
  "\<not> endsWith s ''/'' \<Longrightarrow> toLowerCase s = normalised_url s"
  by (cases s rule: rev_cases;
      simp add: endsWith_slash slice_butlast normalised_url_def toLowerCase_def Let_def
        toLowerCase_unit_slash map_butlast)+

text \<open>
  C7. For non-empty URL strings \<open>foundManagementEndpointUrl\<close> returns true if and only if
  the two are equal after lowercasing and removing at most one trailing slash from each;
  it returns true for \<open>HTTPS://Foo.com/\<close> and \<open>https://foo.com\<close>.
\<close>

theorem foundManagementEndpointUrl_normalised:
  "(a \<noteq> [] \<and> b \<noteq> [] \<longrightarrow>
      foundManagementEndpointUrl (JStr a) (JStr b) = Inr (normalised_url a = normalised_url b))
   \<and> foundManagementEndpointUrl (JStr ''HTTPS://Foo.com/'') (JStr ''https://foo.com'') = Inr True"
proof -
  have "foundManagementEndpointUrl (JStr a) (JStr b) = Inr (normalised_url a = normalised_url b)"
    if "a \<noteq> []" and "b \<noteq> []"
    using that
    by (simp add: foundManagementEndpointUrl_def not_a_string_def Let_def stripped_then_lowered)
  moreover have
    "foundManagementEndpointUrl (JStr ''HTTPS://Foo.com/'') (JStr ''https://foo.com'') = Inr True"
    by code_simp
  ultimately show ?thesis by simp
qed

theorem foundManagementEndpointUrl_normalised_witness:
  "foundManagementEndpointUrl (JStr ''https://Management.Azure.com/'')
     (JStr ''HTTPS://management.azure.com'') = Inr True
   \<and> foundManagementEndpointUrl (JStr ''https://management.azure.com//'')
     (JStr ''https://management.azure.com'') = Inr False"
proof -
  have 1: "normalised_url ''https://Management.Azure.com/'' = normalised_url ''HTTPS://management.azure.com''"
    by code_simp
  have 2: "normalised_url ''https://management.azure.com//'' \<noteq> normalised_url ''https://management.azure.com''"
    by code_simp
  from foundManagementEndpointUrl_normalised
         [of "''https://Management.Azure.com/''" "''HTTPS://management.azure.com''", THEN conjunct1]
       foundManagementEndpointUrl_normalised
         [of "''https://management.azure.com//''" "''https://management.azure.com''", THEN conjunct1]
       1 2
  show ?thesis by simp
qed

end
